theory Spec2Isabelle
  imports Complex_Main
begin

section \<open>Python values and exceptions\<close>

text \<open>
  The exceptions the modelled code can raise. \<open>DriverError\<close> stands for an exception
  raised by the database driver, identified by its text.
\<close>

datatype pyerr =
    AttributeError
  | TypeError
  | ValueError
  | OverflowError
  | NotImplementedError
  | RuntimeError
  | DriverError string

text \<open>
  Python values, as far as the handlers meet them. A float carries the number it denotes
  (rounding to the nearest double and the sign of zero are not represented), or one of the
  three non-finite values. \<open>PDate\<close> is a valid \<open>QDate\<close>, given by its Julian day, and
  \<open>PDateTime\<close> a valid \<open>QDateTime\<close>, given by its milliseconds since the epoch;
  \<open>PObj\<close> is an object of any other class.
\<close>

datatype pyfloat = Finite rat | PosInf | NegInf | NaN

datatype pyval =
    PNone
  | PBool bool
  | PInt int
  | PFloat pyfloat
  | PStr string
  | PDate int
  | PDateTime int
  | PObj nat

text \<open>Python's \<open>==\<close> on these values: numbers compare by value across bool, int and float.\<close>

fun numeric :: "pyval \<Rightarrow> pyfloat option" where
  "numeric (PBool b) = Some (Finite (if b then 1 else 0))"
| "numeric (PInt n) = Some (Finite (of_int n))"
| "numeric (PFloat f) = Some f"
| "numeric v = None"

definition py_eq :: "pyval \<Rightarrow> pyval \<Rightarrow> bool" where
  "py_eq a b =
     (case (numeric a, numeric b) of
        (Some x, Some y) \<Rightarrow> x = y \<and> x \<noteq> NaN
      | (None, None) \<Rightarrow> a = b
      | _ \<Rightarrow> False)"

subsection \<open>Strings\<close>

text \<open>
  Strings are lists of characters with code points below 256. \<open>lower\<close> is
  \<open>str.lower()\<close> on them: the letters \<open>A\<close> to \<open>Z\<close> and the accented capitals at 192 to
  222 (but for the multiplication sign at 215) move to the letter 32 places on, and every
  other character stays as it is.
\<close>

definition lower_char :: "char \<Rightarrow> char" where
  "lower_char c =
     (case map_of (zip ''ABCDEFGHIJKLMNOPQRSTUVWXYZ'' ''abcdefghijklmnopqrstuvwxyz'') c of
        Some l \<Rightarrow> l
      | None \<Rightarrow>
          (let n = (of_char c :: nat) in
           if 192 \<le> n \<and> n \<le> 222 \<and> n \<noteq> 215 then char_of (n + 32) else c))"

definition lower :: "string \<Rightarrow> string" where
  "lower s = map lower_char s"

text \<open>
  The whitespace that \<open>int\<close> and \<open>float\<close> strip from both ends of a string: the space,
  the characters 9 to 13, the next-line character 133 and the no-break space 160.
\<close>

definition is_space :: "char \<Rightarrow> bool" where
  "is_space c =
     (let n = (of_char c :: nat) in n = 32 \<or> (9 \<le> n \<and> n \<le> 13) \<or> n = 133 \<or> n = 160)"

definition strip :: "string \<Rightarrow> string" where
  "strip s = rev (dropWhile is_space (rev (dropWhile is_space s)))"

definition is_digit :: "char \<Rightarrow> bool" where
  "is_digit c = (let n = (of_char c :: nat) in 48 \<le> n \<and> n \<le> 57)"

definition digit_val :: "char \<Rightarrow> nat" where
  "digit_val c = (of_char c :: nat) - 48"

text \<open>
  A run of decimal digits in which single underscores may separate digits: its value and
  its number of digits. The flag says whether the previous character was a digit.
\<close>

fun digitpart :: "nat \<Rightarrow> nat \<Rightarrow> bool \<Rightarrow> string \<Rightarrow> (nat \<times> nat) option" where
  "digitpart acc cnt prev [] = (if prev then Some (acc, cnt) else None)"
| "digitpart acc cnt prev (c # cs) =
     (if is_digit c then digitpart (acc * 10 + digit_val c) (Suc cnt) True cs
      else if c = CHR ''_'' \<and> prev then digitpart acc cnt False cs
      else None)"

definition split_sign :: "string \<Rightarrow> bool \<times> string" where
  "split_sign s =
     (case s of
        c # cs \<Rightarrow>
          if c = CHR ''-'' then (True, cs) else if c = CHR ''+'' then (False, cs) else (False, s)
      | [] \<Rightarrow> (False, s))"

text \<open>An optional sign and a run of digits: the signed value and the number of digits.\<close>

definition signed_digitpart :: "string \<Rightarrow> (int \<times> nat) option" where
  "signed_digitpart s =
     (let (neg, body) = split_sign s in
      case digitpart 0 0 False body of
        None \<Rightarrow> None
      | Some (n, k) \<Rightarrow> Some (if neg then - int n else int n, k))"

definition signed_digits :: "string \<Rightarrow> int option" where
  "signed_digits s = map_option fst (signed_digitpart s)"

text \<open>
  \<open>int(s)\<close> for a string, base ten. A string of more than 4300 digits raises ValueError
  (the limit on integer string conversion).
\<close>

definition int_of_str :: "string \<Rightarrow> pyerr + int" where
  "int_of_str s =
     (case signed_digitpart (strip s) of
        None \<Rightarrow> Inl ValueError
      | Some (n, k) \<Rightarrow> if 4300 < k then Inl ValueError else Inr n)"

text \<open>
  \<open>float(s)\<close> for a string: an optional sign, then \<open>inf\<close>, \<open>infinity\<close> or \<open>nan\<close> in any
  case, or a decimal mantissa with an optional exponent. A magnitude that rounds beyond
  the largest double gives an infinity.
\<close>

definition split_at :: "(char \<Rightarrow> bool) \<Rightarrow> string \<Rightarrow> string \<times> string option" where
  "split_at P s =
     (case dropWhile (\<lambda>c. \<not> P c) s of
        [] \<Rightarrow> (s, None)
      | _ # rest \<Rightarrow> (takeWhile (\<lambda>c. \<not> P c) s, Some rest))"

definition mantissa :: "string \<Rightarrow> rat option" where
  "mantissa m =
     (case split_at (\<lambda>c. c = CHR ''.'') m of
        (ip, None) \<Rightarrow> map_option (\<lambda>(n, _). of_nat n) (digitpart 0 0 False ip)
      | (ip, Some fp) \<Rightarrow>
          if ip = [] \<and> fp = [] then None
          else
            (case (if ip = [] then Some (0, 0) else digitpart 0 0 False ip,
                   if fp = [] then Some (0, 0) else digitpart 0 0 False fp) of
               (Some (i, _), Some (f, k)) \<Rightarrow> Some (of_nat i + of_nat f / 10 ^ k)
             | _ \<Rightarrow> None))"

definition exponent :: "string option \<Rightarrow> int option" where
  "exponent e = (case e of None \<Rightarrow> Some 0 | Some es \<Rightarrow> signed_digits es)"

definition pow10 :: "int \<Rightarrow> rat" where
  "pow10 e = (if 0 \<le> e then 10 ^ nat e else 1 / 10 ^ nat (- e))"

definition float_threshold :: rat where
  "float_threshold = 2 ^ 1024 - 2 ^ 970"

definition to_float :: "rat \<Rightarrow> pyfloat" where
  "to_float x =
     (if float_threshold \<le> x then PosInf
      else if x \<le> - float_threshold then NegInf
      else Finite x)"

definition float_of_str :: "string \<Rightarrow> pyerr + pyfloat" where
  "float_of_str s =
     (let (neg, body) = split_sign (strip s); lb = lower body in
      if lb = ''inf'' \<or> lb = ''infinity'' then Inr (if neg then NegInf else PosInf)
      else if lb = ''nan'' then Inr NaN
      else
        (case split_at (\<lambda>c. c = CHR ''e'' \<or> c = CHR ''E'') body of
           (m, e) \<Rightarrow>
             (case (mantissa m, exponent e) of
                (Some x, Some k) \<Rightarrow> Inr (to_float ((if neg then - x else x) * pow10 k))
              | _ \<Rightarrow> Inl ValueError)))"

subsection \<open>The builtins \<open>int\<close> and \<open>float\<close>\<close>

definition py_int :: "pyval \<Rightarrow> pyerr + int" where
  "py_int v =
     (case v of
        PBool b \<Rightarrow> Inr (if b then 1 else 0)
      | PInt n \<Rightarrow> Inr n
      | PFloat (Finite x) \<Rightarrow> Inr (if 0 \<le> x then \<lfloor>x\<rfloor> else \<lceil>x\<rceil>)
      | PFloat NaN \<Rightarrow> Inl ValueError
      | PFloat _ \<Rightarrow> Inl OverflowError
      | PStr s \<Rightarrow> int_of_str s
      | _ \<Rightarrow> Inl TypeError)"

definition py_float :: "pyval \<Rightarrow> pyerr + pyfloat" where
  "py_float v =
     (case v of
        PBool b \<Rightarrow> Inr (Finite (if b then 1 else 0))
      | PInt n \<Rightarrow>
          if float_threshold \<le> \<bar>of_int n\<bar> then Inl OverflowError else Inr (Finite (of_int n))
      | PFloat f \<Rightarrow> Inr f
      | PStr s \<Rightarrow> float_of_str s
      | _ \<Rightarrow> Inl TypeError)"

section \<open>The handler registry (valuehandlers.py, class ControlValueHandler)\<close>

text \<open>
  \<open>register\<close> reads \<open>cls.controlType.staticMetaObject.className()\<close>. A class may lack
  the attribute \<open>controlType\<close> (the abstract base does), and the object bound to it may
  lack \<open>staticMetaObject\<close> (any class that is not a Qt class); both raise AttributeError,
  which \<open>register\<close> catches and raises again as a new AttributeError.
\<close>

datatype control_class =
    QtClass string        \<comment> \<open>a Qt class; the string is \<open>staticMetaObject.className()\<close>\<close>
  | PlainClass            \<comment> \<open>an object without \<open>staticMetaObject\<close>\<close>

record handler_class =
  cls_name :: string
  controlType :: "control_class option"

type_synonym handlers = "string \<rightharpoonup> handler_class"

definition register :: "handler_class \<Rightarrow> handlers \<Rightarrow> pyerr + handlers" where
  "register cls hs =
     (case controlType cls of
        None \<Rightarrow> Inl AttributeError
      | Some PlainClass \<Rightarrow> Inl AttributeError
      | Some (QtClass ctlClassName) \<Rightarrow> Inr (hs(ctlClassName \<mapsto> cls)))"

text \<open>
  A sequence of \<open>register\<close> calls, as the module runs them at load time; the first
  call that raises aborts the sequence.
\<close>

fun register_all :: "handler_class list \<Rightarrow> handlers \<Rightarrow> pyerr + handlers" where
  "register_all [] hs = Inr hs"
| "register_all (cls # rest) hs =
     (case register cls hs of Inl e \<Rightarrow> Inl e | Inr hs' \<Rightarrow> register_all rest hs')"

text \<open>The key under which a class belongs: the class name of its own control type.\<close>

definition key_of :: "handler_class \<Rightarrow> string option" where
  "key_of cls =
     (case controlType cls of Some (QtClass n) \<Rightarrow> Some n | _ \<Rightarrow> None)"

definition key_consistent :: "handlers \<Rightarrow> bool" where
  "key_consistent hs = (\<forall>k cls. hs k = Some cls \<longrightarrow> key_of cls = Some k)"

section \<open>The handler classes and their methods\<close>

text \<open>
  The classes of valuehandlers.py, in the order the module defines them;
  \<open>ControlValueHandler\<close> is the abstract base, whose \<open>value\<close>, \<open>setValue\<close>,
  \<open>supportsMandatory\<close>, \<open>clear\<close> and \<open>default\<close> all raise NotImplementedError.
\<close>

datatype handler =
    ControlValueHandler
  | LineEditValueHandler
  | AdministrativeUnitLineEditValueHandler
  | AutoGeneratedLineEditValueHandler
  | RelatedEntityLineEditValueHandler
  | MultipleSelectTreeViewValueHandler
  | CheckBoxValueHandler
  | TextEditValueHandler
  | ComboBoxValueHandler
  | DateEditValueHandler
  | DateTimeEditValueHandler
  | SourceDocManagerValueHandler
  | ForeignKeyMapperValueHandler
  | SpinBoxValueHandler
  | DoubleSpinBoxValueHandler
  | CoordinatesWidgetValueHandler
  | MultipleChoiceComboBox
  | ExpressionLineEditValueHandler

text \<open>The base classes named in each \<open>class\<close> statement.\<close>

fun bases :: "handler \<Rightarrow> handler list" where
  "bases ControlValueHandler = []"
| "bases AdministrativeUnitLineEditValueHandler = [LineEditValueHandler]"
| "bases AutoGeneratedLineEditValueHandler = [LineEditValueHandler]"
| "bases RelatedEntityLineEditValueHandler = [AdministrativeUnitLineEditValueHandler]"
| "bases TextEditValueHandler = [LineEditValueHandler]"
| "bases ComboBoxValueHandler = [LineEditValueHandler]"
| "bases ExpressionLineEditValueHandler =
     [LineEditValueHandler, DoubleSpinBoxValueHandler, SpinBoxValueHandler]"
| "bases h = [ControlValueHandler]"

text \<open>
  The method resolution order of each class (Python's linearisation of \<open>bases\<close>): the
  class itself, then its bases from left to right, each before its own bases, the shared
  base \<open>ControlValueHandler\<close> last.
\<close>

fun mro :: "handler \<Rightarrow> handler list" where
  "mro ControlValueHandler = [ControlValueHandler]"
| "mro RelatedEntityLineEditValueHandler =
     [RelatedEntityLineEditValueHandler, AdministrativeUnitLineEditValueHandler,
      LineEditValueHandler, ControlValueHandler]"
| "mro ExpressionLineEditValueHandler =
     [ExpressionLineEditValueHandler, LineEditValueHandler, DoubleSpinBoxValueHandler,
      SpinBoxValueHandler, ControlValueHandler]"
| "mro h = h # concat (map (\<lambda>b. if b = ControlValueHandler then [] else [b]) (bases h))
             @ [ControlValueHandler]"

text \<open>Attribute lookup along the method resolution order: the first class that defines it.\<close>

fun lookup_attr :: "(handler \<Rightarrow> 'a option) \<Rightarrow> handler list \<Rightarrow> 'a option" where
  "lookup_attr own [] = None"
| "lookup_attr own (c # cs) = (case own c of Some m \<Rightarrow> Some m | None \<Rightarrow> lookup_attr own cs)"

text \<open>
  What the body of each class says about \<open>supportsMandatory\<close>: \<open>None\<close> when the class
  body has no such method, otherwise what the method does (return a boolean, or raise).
\<close>

fun own_supportsMandatory :: "handler \<Rightarrow> (pyerr + bool) option" where
  "own_supportsMandatory ControlValueHandler = Some (Inl NotImplementedError)"
| "own_supportsMandatory LineEditValueHandler = Some (Inr True)"
| "own_supportsMandatory AdministrativeUnitLineEditValueHandler = Some (Inr True)"
| "own_supportsMandatory AutoGeneratedLineEditValueHandler = Some (Inr True)"
| "own_supportsMandatory RelatedEntityLineEditValueHandler = None"
| "own_supportsMandatory MultipleSelectTreeViewValueHandler = Some (Inr True)"
| "own_supportsMandatory CheckBoxValueHandler = Some (Inr False)"
| "own_supportsMandatory TextEditValueHandler = Some (Inr True)"
| "own_supportsMandatory ComboBoxValueHandler = Some (Inr True)"
| "own_supportsMandatory DateEditValueHandler = Some (Inr False)"
| "own_supportsMandatory DateTimeEditValueHandler = Some (Inr False)"
| "own_supportsMandatory SourceDocManagerValueHandler = Some (Inr True)"
| "own_supportsMandatory ForeignKeyMapperValueHandler = Some (Inr True)"
| "own_supportsMandatory SpinBoxValueHandler = Some (Inr False)"
| "own_supportsMandatory DoubleSpinBoxValueHandler = Some (Inr False)"
| "own_supportsMandatory CoordinatesWidgetValueHandler = Some (Inr False)"
| "own_supportsMandatory MultipleChoiceComboBox = None"
| "own_supportsMandatory ExpressionLineEditValueHandler = Some (Inr True)"

definition supportsMandatory :: "handler \<Rightarrow> pyerr + bool" where
  "supportsMandatory h =
     (case lookup_attr own_supportsMandatory (mro h) of
        Some r \<Rightarrow> r
      | None \<Rightarrow> Inl AttributeError)"

text \<open>The classes on which the module calls \<open>register()\<close>, in that order.\<close>

definition registered :: "handler list" where
  "registered =
     [LineEditValueHandler, AdministrativeUnitLineEditValueHandler,
      AutoGeneratedLineEditValueHandler, RelatedEntityLineEditValueHandler,
      MultipleSelectTreeViewValueHandler, CheckBoxValueHandler, TextEditValueHandler,
      ComboBoxValueHandler, DateEditValueHandler, DateTimeEditValueHandler,
      SourceDocManagerValueHandler, ForeignKeyMapperValueHandler, SpinBoxValueHandler,
      DoubleSpinBoxValueHandler, CoordinatesWidgetValueHandler, MultipleChoiceComboBox,
      ExpressionLineEditValueHandler]"

section \<open>The Qt controls the handlers wrap\<close>

text \<open>
  Each control is the part of the widget's state that its handler reads and writes,
  with the behaviour Qt documents for the calls the handlers make. A call through the
  Python binding with an argument of the wrong type raises TypeError.
\<close>

record line_edit =
  le_text :: string
  le_maxLength :: nat

text \<open>
  \<open>QLineEdit.setText\<close> takes a \<open>str\<close> and keeps at most \<open>maxLength\<close> characters; the
  binding also accepts \<open>None\<close>, which stands for the empty string and clears the text.
\<close>

definition QLineEdit_setText :: "line_edit \<Rightarrow> pyval \<Rightarrow> pyerr + line_edit" where
  "QLineEdit_setText ctl v =
     (case v of
        PStr s \<Rightarrow> Inr (ctl\<lparr>le_text := take (le_maxLength ctl) s\<rparr>)
      | PNone \<Rightarrow> Inr (ctl\<lparr>le_text := []\<rparr>)
      | _ \<Rightarrow> Inl TypeError)"

record check_box =
  cb_checked :: bool

text \<open>\<open>QCheckBox.setChecked\<close> takes a \<open>bool\<close>; the binding also accepts an \<open>int\<close>.\<close>

definition QCheckBox_setChecked :: "check_box \<Rightarrow> pyval \<Rightarrow> pyerr + check_box" where
  "QCheckBox_setChecked ctl v =
     (case v of
        PBool b \<Rightarrow> Inr (ctl\<lparr>cb_checked := b\<rparr>)
      | PInt n \<Rightarrow> Inr (ctl\<lparr>cb_checked := (n \<noteq> 0)\<rparr>)
      | _ \<Rightarrow> Inl TypeError)"



record spin_box =
  sb_value :: int
  sb_minimum :: int
  sb_maximum :: int

text \<open>
  \<open>QSpinBox.setValue\<close> takes a C \<open>int\<close>: the binding raises OverflowError for a Python
  \<open>int\<close> outside 32 bits, and the control keeps the value within its range.
\<close>

definition QSpinBox_setValue :: "spin_box \<Rightarrow> int \<Rightarrow> pyerr + spin_box" where
  "QSpinBox_setValue ctl n =
     (if n < - (2 ^ 31) \<or> 2 ^ 31 \<le> n then Inl OverflowError
      else Inr (ctl\<lparr>sb_value := max (sb_minimum ctl) (min (sb_maximum ctl) n)\<rparr>))"

record double_spin_box =
  ds_value :: rat
  ds_minimum :: rat
  ds_maximum :: rat
  ds_decimals :: nat

text \<open>
  \<open>QDoubleSpinBox.setValue\<close> rounds its argument to the control's number of decimals
  (a tie goes away from zero) and keeps it within the range; an infinity goes to the
  bound on its side and a NaN compares above the maximum.
\<close>

definition round_half_away :: "rat \<Rightarrow> int" where
  "round_half_away x = (if 0 \<le> x then \<lfloor>x + 1 / 2\<rfloor> else - \<lfloor>- x + 1 / 2\<rfloor>)"

definition round_decimals :: "nat \<Rightarrow> rat \<Rightarrow> rat" where
  "round_decimals d x = of_int (round_half_away (x * 10 ^ d)) / 10 ^ d"

definition QDoubleSpinBox_setValue :: "double_spin_box \<Rightarrow> pyfloat \<Rightarrow> double_spin_box" where
  "QDoubleSpinBox_setValue ctl f =
     (case f of
        Finite x \<Rightarrow>
          ctl\<lparr>ds_value :=
                max (ds_minimum ctl) (min (ds_maximum ctl) (round_decimals (ds_decimals ctl) x))\<rparr>
      | NegInf \<Rightarrow> ctl\<lparr>ds_value := ds_minimum ctl\<rparr>
      | _ \<Rightarrow> ctl\<lparr>ds_value := ds_maximum ctl\<rparr>)"

record date_edit =
  de_date :: int
  de_minimumDate :: int
  de_maximumDate :: int
  de_deleted :: bool

text \<open>
  \<open>QDateEdit.setDate\<close> takes a \<open>QDate\<close> and keeps it within the range of the control.
  The binding checks the type of the argument first (TypeError); a call that reaches a
  wrapper whose widget has been deleted raises RuntimeError.
\<close>

definition QDateEdit_setDate :: "date_edit \<Rightarrow> pyval \<Rightarrow> pyerr + date_edit" where
  "QDateEdit_setDate ctl v =
     (case v of
        PDate d \<Rightarrow>
          if de_deleted ctl then Inl RuntimeError
          else Inr (ctl\<lparr>de_date := max (de_minimumDate ctl) (min (de_maximumDate ctl) d)\<rparr>)
      | _ \<Rightarrow> Inl TypeError)"





text \<open>
  \<open>ExpressionLineEdit\<close> is a line edit bound to a column; the handler reads the column's
  \<open>output_data_type\<close>.
\<close>

record expression_line_edit = line_edit +
  el_output_data_type :: string

section \<open>The handlers' \<open>value\<close>, \<open>setValue\<close> and \<open>default\<close>\<close>

subsection \<open>LineEditValueHandler and AutoGeneratedLineEditValueHandler\<close>



definition LineEditValueHandler_setValue :: "line_edit \<Rightarrow> pyval \<Rightarrow> pyerr + line_edit" where
  "LineEditValueHandler_setValue ctl v = QLineEdit_setText ctl v"




subsection \<open>TextEditValueHandler\<close>




subsection \<open>CheckBoxValueHandler\<close>


definition CheckBoxValueHandler_value :: "check_box \<Rightarrow> pyval" where
  "CheckBoxValueHandler_value ctl = PBool (cb_checked ctl)"

definition CheckBoxValueHandler_setValue :: "check_box \<Rightarrow> pyval \<Rightarrow> pyerr + check_box" where
  "CheckBoxValueHandler_setValue ctl v =
     (case v of
        PStr s \<Rightarrow>
          if lower s \<in> set [''yes'', ''true'', ''t'', ''1'']
          then QCheckBox_setChecked ctl (PBool True)
          else QCheckBox_setChecked ctl (PBool False)
      | PNone \<Rightarrow> QCheckBox_setChecked ctl (PBool False)
      | _ \<Rightarrow> QCheckBox_setChecked ctl v)"

subsection \<open>DateEditValueHandler\<close>



definition DateEditValueHandler_setValue ::
    "date_edit \<Rightarrow> pyval \<Rightarrow> pyerr + (date_edit \<times> string list)" where
  "DateEditValueHandler_setValue ctl v =
     (if v \<noteq> PNone then
        (case QDateEdit_setDate ctl v of
           Inr ctl' \<Rightarrow> Inr (ctl', [])
         | Inl RuntimeError \<Rightarrow>
             Inr (ctl, [''The change is not saved. Please use the form to edit data.''])
         | Inl TypeError \<Rightarrow> Inr (ctl, [])
         | Inl e \<Rightarrow> Inl e)
      else Inr (ctl, []))"

subsection \<open>DateTimeEditValueHandler\<close>




subsection \<open>SpinBoxValueHandler and DoubleSpinBoxValueHandler\<close>


definition SpinBoxValueHandler_value :: "spin_box \<Rightarrow> pyval" where
  "SpinBoxValueHandler_value ctl = PInt (sb_value ctl)"

definition SpinBoxValueHandler_setValue :: "spin_box \<Rightarrow> pyval \<Rightarrow> pyerr + spin_box" where
  "SpinBoxValueHandler_setValue ctl v =
     (if v \<noteq> PNone then
        (case py_int v of Inl e \<Rightarrow> Inl e | Inr n \<Rightarrow> QSpinBox_setValue ctl n)
      else QSpinBox_setValue ctl 0)"


definition DoubleSpinBoxValueHandler_value :: "double_spin_box \<Rightarrow> pyval" where
  "DoubleSpinBoxValueHandler_value ctl = PFloat (Finite (ds_value ctl))"

definition DoubleSpinBoxValueHandler_setValue ::
    "double_spin_box \<Rightarrow> pyval \<Rightarrow> pyerr + double_spin_box" where
  "DoubleSpinBoxValueHandler_setValue ctl v =
     (if v \<noteq> PNone then
        (case py_float v of Inl e \<Rightarrow> Inl e | Inr f \<Rightarrow> Inr (QDoubleSpinBox_setValue ctl f))
      else Inr (QDoubleSpinBox_setValue ctl (Finite 0)))"

subsection \<open>ExpressionLineEditValueHandler\<close>

text \<open>
  \<open>value\<close> tests the type tag three times and falls off the end, returning \<open>None\<close>, for
  any other tag. \<open>setValue\<close> writes \<open>str(value)\<close>; the builtin \<open>str\<close> is a parameter.
\<close>

definition ExpressionLineEditValueHandler_default :: pyval where
  "ExpressionLineEditValueHandler_default = PNone"

definition ExpressionLineEditValueHandler_value ::
    "expression_line_edit \<Rightarrow> pyerr + pyval" where
  "ExpressionLineEditValueHandler_value ctl =
     (if el_output_data_type ctl = ''float'' then
        (if le_text ctl = [] then Inr ExpressionLineEditValueHandler_default
         else map_sum id PFloat (py_float (PStr (le_text ctl))))
      else if el_output_data_type ctl = ''int'' then
        (if le_text ctl = [] then Inr ExpressionLineEditValueHandler_default
         else map_sum id PInt (py_int (PStr (le_text ctl))))
      else if el_output_data_type ctl = ''str'' then
        (if le_text ctl = [] then Inr ExpressionLineEditValueHandler_default
         else Inr (PStr (le_text ctl)))
      else Inr PNone)"


section \<open>The database creator (template-database.py)\<close>

text \<open>
  Python's \<open>format % args\<close> for the conversions \<open>%s\<close> and \<open>%%\<close> with string
  arguments. A \<open>%\<close> at the end of the format raises ValueError (incomplete format), as
  does any other conversion character here; a wrong number of arguments raises TypeError.
\<close>

fun percent_format :: "string \<Rightarrow> string list \<Rightarrow> pyerr + string" where
  "percent_format [] [] = Inr []"
| "percent_format [] (a # as) = Inl TypeError"
| "percent_format (c # cs) args =
     (if c \<noteq> CHR ''%'' then map_sum id ((#) c) (percent_format cs args)
      else
        (case cs of
           [] \<Rightarrow> Inl ValueError
         | d # ds \<Rightarrow>
             if d = CHR ''s'' then
               (case args of
                  [] \<Rightarrow> Inl TypeError
                | a # as \<Rightarrow> map_sum id ((@) a) (percent_format ds as))
             else if d = CHR ''%'' then map_sum id ((#) CHR ''%'') (percent_format ds args)
             else Inl ValueError))"

text \<open>
  \<open>raise ex.message\<close>: reading the attribute raises AttributeError when the exception
  object has no \<open>message\<close>; when it has one, a string, raising a string raises TypeError.
  Which exceptions carry a \<open>message\<close> is a parameter.
\<close>

definition raise_message :: "(pyerr \<Rightarrow> string option) \<Rightarrow> pyerr \<Rightarrow> pyerr" where
  "raise_message message ex = (case message ex of None \<Rightarrow> AttributeError | Some m \<Rightarrow> TypeError)"

text \<open>
  \<open>createDbExtension\<close>. The imported \<open>_execute\<close> is a parameter: it returns the
  exception it raises, if any. The result is the exception that leaves the method, or
  the list of the statements it has executed.
\<close>

definition createDbExtension ::
    "(pyerr \<Rightarrow> string option) \<Rightarrow> (string \<Rightarrow> pyerr option) \<Rightarrow> string option
       \<Rightarrow> pyerr + string list" where
  "createDbExtension message execute template =
     (case (case template of
              Some t \<Rightarrow> percent_format ''CREATE EXTENSION %'' [t]
            | None \<Rightarrow> Inr ''CREATE EXTENSION postgis'') of
        Inl ex \<Rightarrow> Inl (raise_message message ex)
      | Inr template_sql \<Rightarrow>
          (case execute template_sql of
             Some ex \<Rightarrow> Inl (raise_message message ex)
           | None \<Rightarrow> Inr [template_sql]))"

section \<open>The composer data source selector (composer_data_source.py)\<close>

subsection \<open>Combo boxes\<close>

text \<open>
  A combo box: its items (text and user data), the current index (\<open>-1\<close> for none) and
  whether it is enabled. Each operation returns the new combo box and the texts it emits
  with \<open>currentIndexChanged[str]\<close>: clearing a combo box that had a current item emits
  the empty text, adding an item to an empty combo box makes it current, and
  \<open>setCurrentIndex\<close> emits when the index changes.
\<close>

record combo_box =
  co_items :: "(string \<times> string option) list"
  co_index :: int
  co_enabled :: bool

definition itemText :: "combo_box \<Rightarrow> int \<Rightarrow> string" where
  "itemText c i =
     (if 0 \<le> i \<and> i < int (length (co_items c)) then fst (co_items c ! nat i) else [])"

definition itemData :: "combo_box \<Rightarrow> int \<Rightarrow> string option" where
  "itemData c i =
     (if 0 \<le> i \<and> i < int (length (co_items c)) then snd (co_items c ! nat i) else None)"

definition combo_clear :: "combo_box \<Rightarrow> combo_box \<times> string list" where
  "combo_clear c =
     (c\<lparr>co_items := [], co_index := - 1\<rparr>, if co_index c \<noteq> - 1 then [[]] else [])"

definition combo_addItem :: "string \<Rightarrow> string option \<Rightarrow> combo_box \<Rightarrow> combo_box \<times> string list" where
  "combo_addItem text data c =
     (if co_items c = [] then (c\<lparr>co_items := [(text, data)], co_index := 0\<rparr>, [text])
      else (c\<lparr>co_items := co_items c @ [(text, data)]\<rparr>, []))"

definition combo_setCurrentIndex :: "int \<Rightarrow> combo_box \<Rightarrow> combo_box \<times> string list" where
  "combo_setCurrentIndex i c =
     (let j = (if 0 \<le> i \<and> i < int (length (co_items c)) then i else - 1) in
      if j = co_index c then (c, []) else (c\<lparr>co_index := j\<rparr>, [itemText c j]))"

subsection \<open>The widget\<close>

text \<open>
  The state of \<open>ComposerDataSourceSelector\<close>: the two radio buttons, the two combo boxes,
  the flag \<open>_sync_data_source\<close>, whether the constructor has connected the signals yet,
  the tables and views of the profile, and the three variables \<open>LayoutUtils\<close> stores on
  the layout.
\<close>

record selector =
  rbTables :: bool
  rbViews :: bool
  cboDataSource :: combo_box
  cboReferencedTable :: combo_box
  sync_data_source :: bool
  signals_connected :: bool
  profile_tables :: "(string \<times> string) list"
  profile_views :: "string list"
  layout_data_source :: "string option"
  layout_referenced_table :: "string option"
  layout_category :: "string option"

definition category :: "selector \<Rightarrow> string option" where
  "category s =
     (if rbTables s then Some ''Table'' else if rbViews s then Some ''View'' else None)"

definition referenced_table_name :: "selector \<Rightarrow> string option" where
  "referenced_table_name s = itemData (cboReferencedTable s) (co_index (cboReferencedTable s))"

definition on_referenced_table_selected :: "selector \<Rightarrow> selector" where
  "on_referenced_table_selected s = s\<lparr>layout_referenced_table := referenced_table_name s\<rparr>"

text \<open>An operation on \<open>cboReferencedTable\<close>, followed by the slot for each signal it emits.\<close>

definition on_cboReferencedTable ::
    "(combo_box \<Rightarrow> combo_box \<times> string list) \<Rightarrow> selector \<Rightarrow> selector" where
  "on_cboReferencedTable op s =
     (let (c, sigs) = op (cboReferencedTable s); s' = s\<lparr>cboReferencedTable := c\<rparr> in
      if signals_connected s' then fold (\<lambda>_. on_referenced_table_selected) sigs s' else s')"

text \<open>
  \<open>onDataSourceSelected\<close>. \<open>GuiUtils.set_combo_current_index_by_text\<close> is a parameter:
  \<open>find_text\<close> gives the index it selects in the combo box, if any.
\<close>

definition onDataSourceSelected ::
    "(combo_box \<Rightarrow> string \<Rightarrow> int option) \<Rightarrow> string \<Rightarrow> selector \<Rightarrow> selector" where
  "onDataSourceSelected find_text dataSource s =
     (let s1 = (if category s = Some ''View'' then
                  (if dataSource = []
                   then s\<lparr>cboReferencedTable := (cboReferencedTable s)\<lparr>co_enabled := False\<rparr>\<rparr>
                   else s\<lparr>cboReferencedTable := (cboReferencedTable s)\<lparr>co_enabled := True\<rparr>\<rparr>)
                else s);
          s2 = (if sync_data_source s1 then
                  (case find_text (cboReferencedTable s1) dataSource of
                     None \<Rightarrow> s1
                   | Some i \<Rightarrow> on_cboReferencedTable (combo_setCurrentIndex i) s1)
                else s1)
      in s2\<lparr>layout_data_source := itemData (cboDataSource s2) (co_index (cboDataSource s2))\<rparr>)"

text \<open>An operation on \<open>cboDataSource\<close>, followed by the slot for each signal it emits.\<close>

definition on_cboDataSource ::
    "(combo_box \<Rightarrow> string \<Rightarrow> int option) \<Rightarrow> (combo_box \<Rightarrow> combo_box \<times> string list)
       \<Rightarrow> selector \<Rightarrow> selector" where
  "on_cboDataSource find_text op s =
     (let (c, sigs) = op (cboDataSource s); s' = s\<lparr>cboDataSource := c\<rparr> in
      if signals_connected s' then fold (onDataSourceSelected find_text) sigs s' else s')"

fun contains_supporting_document :: "string \<Rightarrow> bool" where
  "contains_supporting_document [] = False"
| "contains_supporting_document (c # cs) =
     (take (length ''supporting_document'') (c # cs) = ''supporting_document''
      \<or> contains_supporting_document cs)"

definition reset_referenced_table_combo :: "selector \<Rightarrow> selector" where
  "reset_referenced_table_combo s =
     (let s1 = (if 0 < length (co_items (cboReferencedTable s))
                then on_cboReferencedTable (combo_setCurrentIndex 0) s else s)
      in if category s1 = Some ''Table''
         then s1\<lparr>cboReferencedTable := (cboReferencedTable s1)\<lparr>co_enabled := False\<rparr>,
                 sync_data_source := True\<rparr>
         else s1\<lparr>cboReferencedTable := (cboReferencedTable s1)\<lparr>co_enabled := True\<rparr>,
                 sync_data_source := False\<rparr>)"

definition onShowTables ::
    "(combo_box \<Rightarrow> string \<Rightarrow> int option) \<Rightarrow> bool \<Rightarrow> bool \<Rightarrow> selector \<Rightarrow> selector" where
  "onShowTables find_text state save_change s =
     (let s1 = (if state then
                  (let s2 = reset_referenced_table_combo s;
                       s3 = on_cboDataSource find_text combo_clear s2;
                       s4 = on_cboDataSource find_text (combo_addItem [] None) s3
                   in fold (\<lambda>(key, val) st.
                              if \<not> contains_supporting_document key
                              then on_cboDataSource find_text (combo_addItem (lower val) (Some key)) st
                              else st)
                        (profile_tables s4) s4)
                else s)
      in if save_change then s1\<lparr>layout_category := category s1\<rparr> else s1)"

definition onShowViews ::
    "(combo_box \<Rightarrow> string \<Rightarrow> int option) \<Rightarrow> bool \<Rightarrow> bool \<Rightarrow> selector \<Rightarrow> selector" where
  "onShowViews find_text state save_change s =
     (let s1 = (if state then
                  (let s2 = reset_referenced_table_combo s;
                       s3 = on_cboDataSource find_text combo_clear s2;
                       s4 = on_cboDataSource find_text (combo_addItem [] None) s3
                   in fold (\<lambda>view st. on_cboDataSource find_text (combo_addItem view (Some view)) st)
                        (profile_views s4) s4)
                else s)
      in if save_change then s1\<lparr>layout_category := category s1\<rparr> else s1)"

text \<open>
  \<open>setCategory\<close> checks a radio button. Checking one of two exclusive radio buttons
  unchecks the other first, and each change emits \<open>toggled\<close>, which runs \<open>onShowTables\<close>
  or \<open>onShowViews\<close> once the constructor has connected them.
\<close>

definition setCategory ::
    "(combo_box \<Rightarrow> string \<Rightarrow> int option) \<Rightarrow> string \<Rightarrow> selector \<Rightarrow> selector" where
  "setCategory find_text categoryName s =
     (if categoryName = ''Table'' then
        (if rbTables s then s
         else
           (let s1 = s\<lparr>rbTables := True\<rparr>;
                s2 = (if rbViews s1 then
                        (let s' = s1\<lparr>rbViews := False\<rparr> in
                         if signals_connected s' then onShowViews find_text False True s' else s')
                      else s1)
            in if signals_connected s2 then onShowTables find_text True True s2 else s2))
      else if categoryName = ''View'' then
        (if rbViews s then s
         else
           (let s1 = s\<lparr>rbViews := True\<rparr>;
                s2 = (if rbTables s1 then
                        (let s' = s1\<lparr>rbTables := False\<rparr> in
                         if signals_connected s' then onShowTables find_text False True s' else s')
                      else s1)
            in if signals_connected s2 then onShowViews find_text True True s2 else s2))
      else s)"

text \<open>
  The constructor, from the widgets as created (radio buttons unchecked, combo boxes empty
  and enabled): it fills the referenced tables from the entities of the profile (short name
  and name), checks \<open>rbViews\<close>, calls \<open>onShowViews\<close> itself, connects the signals and
  disables the referenced table combo box.
\<close>

definition populate_referenced_tables :: "(string \<times> string) list \<Rightarrow> selector \<Rightarrow> selector" where
  "populate_referenced_tables ref_tables s =
     fold (\<lambda>(short_name, name) st.
             on_cboReferencedTable (combo_addItem (lower short_name) (Some name)) st)
       ref_tables (on_cboReferencedTable (combo_addItem [] None) s)"

definition selector_init ::
    "(combo_box \<Rightarrow> string \<Rightarrow> int option) \<Rightarrow> (string \<times> string) list \<Rightarrow> (string \<times> string) list
       \<Rightarrow> string list \<Rightarrow> selector" where
  "selector_init find_text ref_tables tabs views =
     (let s0 = \<lparr>rbTables = False, rbViews = False,
                cboDataSource = \<lparr>co_items = [], co_index = - 1, co_enabled = True\<rparr>,
                cboReferencedTable = \<lparr>co_items = [], co_index = - 1, co_enabled = True\<rparr>,
                sync_data_source = False, signals_connected = False,
                profile_tables = tabs, profile_views = views,
                layout_data_source = None, layout_referenced_table = None,
                layout_category = None\<rparr>;
          s1 = populate_referenced_tables ref_tables s0;
          s2 = s1\<lparr>sync_data_source := False\<rparr>;
          s3 = s2\<lparr>rbViews := True\<rparr>;
          s4 = onShowViews find_text True False s3;
          s5 = s4\<lparr>signals_connected := True\<rparr>;
          s6 = s5\<lparr>cboReferencedTable := (cboReferencedTable s5)\<lparr>co_enabled := False\<rparr>\<rparr>
      in s6)"

section \<open>Properties of the registry\<close>

lemma register_Inr:
  "register cls hs = Inr hs' \<Longrightarrow> \<exists>n. controlType cls = Some (QtClass n) \<and> hs' = hs(n \<mapsto> cls)"
  by (auto simp: register_def split: option.splits control_class.splits)

lemma register_keeps_consistent:
  assumes "key_consistent hs" and "register cls hs = Inr hs'"
  shows "key_consistent hs'"
proof -
  from assms(2) obtain n where n: "controlType cls = Some (QtClass n)" "hs' = hs(n \<mapsto> cls)"
    using register_Inr by blast
  have "key_of cls = Some n" using n(1) by (simp add: key_of_def)
  with assms(1) n(2) show ?thesis
    by (auto simp: key_consistent_def)
qed

lemma register_all_keeps_consistent:
  "key_consistent hs \<Longrightarrow> register_all cs hs = Inr hs' \<Longrightarrow> key_consistent hs'"
proof (induction cs arbitrary: hs)
  case Nil
  then show ?case by simp
next
  case (Cons c cs)
  from Cons.prems(2) obtain h1 where h1: "register c hs = Inr h1" "register_all cs h1 = Inr hs'"
    by (auto split: sum.splits)
  from register_keeps_consistent [OF Cons.prems(1) h1(1)] have "key_consistent h1" .
  then show ?case using Cons.IH h1(2) by blast
qed

text \<open>
  Claim C4. Registering two handler classes one after the other under the same control
  class name succeeds without any duplicate check, and a lookup of that name then gives
  the class registered second.
\<close>

theorem register_last_write_wins:
  assumes "controlType a = Some (QtClass k)" and "controlType b = Some (QtClass k)"
  shows "\<exists>h1 h2. register a hs = Inr h1 \<and> register b h1 = Inr h2 \<and> h2 k = Some b"
  using assms by (simp add: register_def)

theorem register_last_write_wins_witness:
  "\<exists>h1 h2.
     register \<lparr>cls_name = ''First'', controlType = Some (QtClass ''QLineEdit'')\<rparr> Map.empty = Inr h1 \<and>
     register \<lparr>cls_name = ''Second'', controlType = Some (QtClass ''QLineEdit'')\<rparr> h1 = Inr h2 \<and>
     h2 ''QLineEdit'' = Some \<lparr>cls_name = ''Second'', controlType = Some (QtClass ''QLineEdit'')\<rparr>"
  using register_last_write_wins
    [of "\<lparr>cls_name = ''First'', controlType = Some (QtClass ''QLineEdit'')\<rparr>" "''QLineEdit''"
        "\<lparr>cls_name = ''Second'', controlType = Some (QtClass ''QLineEdit'')\<rparr>" Map.empty]
  by simp

text \<open>
  Claim C9. Starting from the empty \<open>handlers\<close> dictionary, after any sequence of
  \<open>register\<close> calls that all succeed, every entry is stored under the class name of the
  control type its class declares.
\<close>

theorem register_all_key_consistent:
  assumes "register_all cs Map.empty = Inr hs" and "hs k = Some cls"
  shows "controlType cls = Some (QtClass k)"
proof -
  have "key_consistent Map.empty" by (simp add: key_consistent_def)
  from register_all_keeps_consistent [OF this assms(1)] have "key_consistent hs" .
  with assms(2) have "key_of cls = Some k" by (simp add: key_consistent_def)
  then show ?thesis
    by (auto simp: key_of_def split: option.splits control_class.splits)
qed

theorem register_all_key_consistent_witness:
  "register_all
     [\<lparr>cls_name = ''First'', controlType = Some (QtClass ''QLineEdit'')\<rparr>,
      \<lparr>cls_name = ''Second'', controlType = Some (QtClass ''QLineEdit'')\<rparr>] Map.empty
   = Inr [''QLineEdit'' \<mapsto> \<lparr>cls_name = ''Second'', controlType = Some (QtClass ''QLineEdit'')\<rparr>]
   \<and> controlType \<lparr>cls_name = ''Second'', controlType = Some (QtClass ''QLineEdit'')\<rparr>
       = Some (QtClass ''QLineEdit'')"
proof -
  have run: "register_all
     [\<lparr>cls_name = ''First'', controlType = Some (QtClass ''QLineEdit'')\<rparr>,
      \<lparr>cls_name = ''Second'', controlType = Some (QtClass ''QLineEdit'')\<rparr>] Map.empty
   = Inr [''QLineEdit'' \<mapsto> \<lparr>cls_name = ''Second'', controlType = Some (QtClass ''QLineEdit'')\<rparr>]"
    by (simp add: register_def)
  have look: "[''QLineEdit'' \<mapsto> \<lparr>cls_name = ''Second'', controlType = Some (QtClass ''QLineEdit'')\<rparr>]
      ''QLineEdit'' = Some \<lparr>cls_name = ''Second'', controlType = Some (QtClass ''QLineEdit'')\<rparr>"
    by simp
  from register_all_key_consistent [OF run look] run show ?thesis by simp
qed

text \<open>
  Claim C10. \<open>MultipleChoiceComboBox\<close> has no \<open>supportsMandatory\<close> of its own, so a call
  reaches the abstract base and raises NotImplementedError; every other registered handler
  class returns a boolean.
\<close>

theorem MultipleChoiceComboBox_supportsMandatory:
  "supportsMandatory MultipleChoiceComboBox = Inl NotImplementedError \<and>
   (\<forall>h \<in> set registered. h \<noteq> MultipleChoiceComboBox \<longrightarrow> (\<exists>b. supportsMandatory h = Inr b))"
  by (auto simp: supportsMandatory_def registered_def)

theorem MultipleChoiceComboBox_supportsMandatory_witness:
  "RelatedEntityLineEditValueHandler \<in> set registered \<and>
   RelatedEntityLineEditValueHandler \<noteq> MultipleChoiceComboBox \<and>
   supportsMandatory RelatedEntityLineEditValueHandler = Inr True \<and>
   supportsMandatory MultipleChoiceComboBox = Inl NotImplementedError"
  using MultipleChoiceComboBox_supportsMandatory
  by (simp add: supportsMandatory_def registered_def)

section \<open>Properties of the value handlers\<close>

lemma lower_YES: "lower ''YES'' = ''yes''"
  by (simp add: lower_def lower_char_def)

text \<open>
  Claim C2, as amended. For the checkbox handler, \<open>setValue\<close> of a string followed by
  \<open>value\<close> returns True exactly when the lower-cased string is one of \<open>yes\<close>, \<open>true\<close>,
  \<open>t\<close>, \<open>1\<close> (so for \<open>yes\<close>, \<open>YES\<close>, \<open>true\<close>, \<open>t\<close>, \<open>1\<close> and every case variant),
  and False for every other string; a boolean is passed to \<open>setChecked\<close> as it is, so
  \<open>value\<close> then returns that boolean.
\<close>

theorem CheckBox_setValue_value:
  "(\<exists>c'. CheckBoxValueHandler_setValue c (PStr s) = Inr c' \<and>
         CheckBoxValueHandler_value c' = PBool (lower s \<in> {''yes'', ''true'', ''t'', ''1''})) \<and>
   (\<exists>c'. CheckBoxValueHandler_setValue c (PBool b) = Inr c' \<and>
         CheckBoxValueHandler_value c' = PBool b)"
  by (simp add: CheckBoxValueHandler_setValue_def CheckBoxValueHandler_value_def
      QCheckBox_setChecked_def)

theorem CheckBox_setValue_value_witness:
  "(\<exists>c'. CheckBoxValueHandler_setValue \<lparr>cb_checked = False\<rparr> (PStr ''YES'') = Inr c' \<and>
         CheckBoxValueHandler_value c' = PBool True) \<and>
   (\<exists>c'. CheckBoxValueHandler_setValue \<lparr>cb_checked = False\<rparr> (PBool True) = Inr c' \<and>
         CheckBoxValueHandler_value c' = PBool True)"
  using CheckBox_setValue_value [of "\<lparr>cb_checked = False\<rparr>" "''YES''" True]
  by (simp add: lower_YES)

text \<open>
  Claim C2 as stated fails: \<open>True\<close> is a non-null input that is none of the listed
  strings, and \<open>value\<close> after \<open>setValue(True)\<close> is True, not False.
\<close>

theorem CheckBox_nonnull_counterexample:
  "PBool True \<noteq> PNone \<and>
   CheckBoxValueHandler_setValue \<lparr>cb_checked = False\<rparr> (PBool True) = Inr \<lparr>cb_checked = True\<rparr> \<and>
   CheckBoxValueHandler_value \<lparr>cb_checked = True\<rparr> = PBool True \<and>
   PBool True \<noteq> PBool False"
  by (simp add: CheckBoxValueHandler_setValue_def CheckBoxValueHandler_value_def
      QCheckBox_setChecked_def)

lemma py_int_42: "py_int (PStr ''42'') = Inr 42"
  by (simp add: py_int_def int_of_str_def signed_digitpart_def strip_def is_space_def
      split_sign_def is_digit_def digit_val_def)

lemma py_int_7: "py_int (PStr ''7'') = Inr 7"
  by (simp add: py_int_def int_of_str_def signed_digitpart_def strip_def is_space_def
      split_sign_def is_digit_def digit_val_def)

lemma py_int_abc: "py_int (PStr ''abc'') = Inl ValueError"
  by (simp add: py_int_def int_of_str_def signed_digitpart_def strip_def is_space_def
      split_sign_def is_digit_def digit_val_def)

lemma float_threshold_7: "\<not> float_threshold \<le> 7" "\<not> 7 \<le> - float_threshold"
  by (simp_all add: float_threshold_def)

lemma py_float_7: "py_float (PStr ''7'') = Inr (Finite 7)"
  by (simp add: py_float_def float_of_str_def strip_def is_space_def split_sign_def lower_def
      lower_char_def split_at_def mantissa_def is_digit_def digit_val_def exponent_def pow10_def
      signed_digits_def signed_digitpart_def to_float_def float_threshold_7)

text \<open>
  Claim C6. For the expression handler, with the type tag \<open>int\<close> and the text \<open>42\<close>,
  \<open>value\<close> returns the integer 42; with an empty text and any of the tags \<open>float\<close>,
  \<open>int\<close>, \<open>str\<close> it returns \<open>default()\<close>, which is \<open>None\<close>.
\<close>

theorem Expression_value:
  "(el_output_data_type c = ''int'' \<and> le_text c = ''42'' \<longrightarrow>
      ExpressionLineEditValueHandler_value c = Inr (PInt 42)) \<and>
   (el_output_data_type c \<in> {''float'', ''int'', ''str''} \<and> le_text c = [] \<longrightarrow>
      ExpressionLineEditValueHandler_value c = Inr ExpressionLineEditValueHandler_default \<and>
      ExpressionLineEditValueHandler_default = PNone)"
  by (auto simp: ExpressionLineEditValueHandler_value_def py_int_42
      ExpressionLineEditValueHandler_default_def)

theorem Expression_value_witness:
  "ExpressionLineEditValueHandler_value
     \<lparr>le_text = ''42'', le_maxLength = 32767, el_output_data_type = ''int''\<rparr> = Inr (PInt 42) \<and>
   ExpressionLineEditValueHandler_value
     \<lparr>le_text = [], le_maxLength = 32767, el_output_data_type = ''float''\<rparr> = Inr PNone"
  using Expression_value [of "\<lparr>le_text = ''42'', le_maxLength = 32767, el_output_data_type = ''int''\<rparr>"]
    Expression_value [of "\<lparr>le_text = [], le_maxLength = 32767, el_output_data_type = ''float''\<rparr>"]
  by simp

lemma round_half_away_of_int: "round_half_away (of_int m) = m"
proof -
  have a: "\<lfloor>(of_int m :: rat) + 1 / 2\<rfloor> = m" by linarith
  have b: "\<lfloor>- (of_int m :: rat) + 1 / 2\<rfloor> = - m" by linarith
  show ?thesis by (simp only: round_half_away_def a b) simp
qed

lemma round_decimals_of_int: "round_decimals d (of_int n) = of_int n"
proof -
  have "(of_int n :: rat) * 10 ^ d = of_int (n * 10 ^ d)" by simp
  then have "round_half_away (of_int n * 10 ^ d) = n * 10 ^ d"
    by (simp only: round_half_away_of_int)
  then show ?thesis by (simp add: round_decimals_def)
qed

lemma round_decimals_0: "round_decimals d 0 = 0"
  using round_decimals_of_int [of d 0] by simp

lemma round_decimals_7: "round_decimals d 7 = 7"
  using round_decimals_of_int [of d 7] by simp

text \<open>
  Claim C5, as amended. On both spin box handlers \<open>setValue(None)\<close> asks the control
  for 0 and \<open>setValue("7")\<close> asks it for 7, and the control keeps what it is asked for
  within its range: \<open>value\<close> then returns that number when it lies between the minimum
  and the maximum of the control, and the nearest of the two bounds otherwise. So
  \<open>setValue(None)\<close> followed by \<open>value\<close> returns 0 on a control whose range holds 0, and
  \<open>setValue("7")\<close> followed by \<open>value\<close> returns the integer 7 on the integer handler and
  the float 7.0 on the double handler, on a control whose range holds 7 (as the range 0 to
  99 that a spin box starts with holds both).
\<close>

theorem Spin_setValue_value:
  "(\<exists>c'. SpinBoxValueHandler_setValue c PNone = Inr c' \<and>
         SpinBoxValueHandler_value c' = PInt (max (sb_minimum c) (min (sb_maximum c) 0))) \<and>
   (\<exists>c'. SpinBoxValueHandler_setValue c (PStr ''7'') = Inr c' \<and>
         SpinBoxValueHandler_value c' = PInt (max (sb_minimum c) (min (sb_maximum c) 7))) \<and>
   (\<exists>d'. DoubleSpinBoxValueHandler_setValue d PNone = Inr d' \<and>
         DoubleSpinBoxValueHandler_value d' =
           PFloat (Finite (max (ds_minimum d) (min (ds_maximum d) 0)))) \<and>
   (\<exists>d'. DoubleSpinBoxValueHandler_setValue d (PStr ''7'') = Inr d' \<and>
         DoubleSpinBoxValueHandler_value d' =
           PFloat (Finite (max (ds_minimum d) (min (ds_maximum d) 7)))) \<and>
   (sb_minimum c \<le> 0 \<and> 0 \<le> sb_maximum c \<longrightarrow>
      (\<exists>c'. SpinBoxValueHandler_setValue c PNone = Inr c' \<and>
            SpinBoxValueHandler_value c' = PInt 0)) \<and>
   (sb_minimum c \<le> 7 \<and> 7 \<le> sb_maximum c \<longrightarrow>
      (\<exists>c'. SpinBoxValueHandler_setValue c (PStr ''7'') = Inr c' \<and>
            SpinBoxValueHandler_value c' = PInt 7)) \<and>
   (ds_minimum d \<le> 0 \<and> 0 \<le> ds_maximum d \<longrightarrow>
      (\<exists>d'. DoubleSpinBoxValueHandler_setValue d PNone = Inr d' \<and>
            DoubleSpinBoxValueHandler_value d' = PFloat (Finite 0))) \<and>
   (ds_minimum d \<le> 7 \<and> 7 \<le> ds_maximum d \<longrightarrow>
      (\<exists>d'. DoubleSpinBoxValueHandler_setValue d (PStr ''7'') = Inr d' \<and>
            DoubleSpinBoxValueHandler_value d' = PFloat (Finite 7)))"
proof -
  have a: "\<exists>c'. SpinBoxValueHandler_setValue c PNone = Inr c' \<and>
         SpinBoxValueHandler_value c' = PInt (max (sb_minimum c) (min (sb_maximum c) 0))"
    by (simp add: SpinBoxValueHandler_setValue_def SpinBoxValueHandler_value_def
        QSpinBox_setValue_def)
  have b: "\<exists>c'. SpinBoxValueHandler_setValue c (PStr ''7'') = Inr c' \<and>
         SpinBoxValueHandler_value c' = PInt (max (sb_minimum c) (min (sb_maximum c) 7))"
    by (simp add: SpinBoxValueHandler_setValue_def SpinBoxValueHandler_value_def
        QSpinBox_setValue_def py_int_7)
  have c: "\<exists>d'. DoubleSpinBoxValueHandler_setValue d PNone = Inr d' \<and>
         DoubleSpinBoxValueHandler_value d' =
           PFloat (Finite (max (ds_minimum d) (min (ds_maximum d) 0)))"
    by (simp add: DoubleSpinBoxValueHandler_setValue_def DoubleSpinBoxValueHandler_value_def
        QDoubleSpinBox_setValue_def round_decimals_0)
  have d: "\<exists>d'. DoubleSpinBoxValueHandler_setValue d (PStr ''7'') = Inr d' \<and>
         DoubleSpinBoxValueHandler_value d' =
           PFloat (Finite (max (ds_minimum d) (min (ds_maximum d) 7)))"
    by (simp add: DoubleSpinBoxValueHandler_setValue_def DoubleSpinBoxValueHandler_value_def
        QDoubleSpinBox_setValue_def round_decimals_7 py_float_7)
  have a0: "sb_minimum c \<le> 0 \<and> 0 \<le> sb_maximum c \<longrightarrow>
      max (sb_minimum c) (min (sb_maximum c) 0) = 0"
    by simp
  have b7: "sb_minimum c \<le> 7 \<and> 7 \<le> sb_maximum c \<longrightarrow>
      max (sb_minimum c) (min (sb_maximum c) 7) = 7"
    by simp
  have c0: "ds_minimum d \<le> 0 \<and> 0 \<le> ds_maximum d \<longrightarrow>
      max (ds_minimum d) (min (ds_maximum d) 0) = 0"
    by simp
  have d7: "ds_minimum d \<le> 7 \<and> 7 \<le> ds_maximum d \<longrightarrow>
      max (ds_minimum d) (min (ds_maximum d) 7) = 7"
    by simp
  from a a0 have a': "sb_minimum c \<le> 0 \<and> 0 \<le> sb_maximum c \<longrightarrow>
      (\<exists>c'. SpinBoxValueHandler_setValue c PNone = Inr c' \<and>
            SpinBoxValueHandler_value c' = PInt 0)"
    by metis
  from b b7 have b': "sb_minimum c \<le> 7 \<and> 7 \<le> sb_maximum c \<longrightarrow>
      (\<exists>c'. SpinBoxValueHandler_setValue c (PStr ''7'') = Inr c' \<and>
            SpinBoxValueHandler_value c' = PInt 7)"
    by metis
  from c c0 have c': "ds_minimum d \<le> 0 \<and> 0 \<le> ds_maximum d \<longrightarrow>
      (\<exists>d'. DoubleSpinBoxValueHandler_setValue d PNone = Inr d' \<and>
            DoubleSpinBoxValueHandler_value d' = PFloat (Finite 0))"
    by metis
  from d d7 have d': "ds_minimum d \<le> 7 \<and> 7 \<le> ds_maximum d \<longrightarrow>
      (\<exists>d'. DoubleSpinBoxValueHandler_setValue d (PStr ''7'') = Inr d' \<and>
            DoubleSpinBoxValueHandler_value d' = PFloat (Finite 7))"
    by metis
  from a b c d a' b' c' d' show ?thesis by blast
qed

theorem Spin_setValue_value_witness:
  "(\<exists>c'. SpinBoxValueHandler_setValue \<lparr>sb_value = 5, sb_minimum = 0, sb_maximum = 99\<rparr> PNone = Inr c' \<and>
         SpinBoxValueHandler_value c' = PInt 0) \<and>
   (\<exists>c'. SpinBoxValueHandler_setValue \<lparr>sb_value = 5, sb_minimum = 0, sb_maximum = 99\<rparr> (PStr ''7'') = Inr c' \<and>
         SpinBoxValueHandler_value c' = PInt 7) \<and>
   (\<exists>d'. DoubleSpinBoxValueHandler_setValue
           \<lparr>ds_value = 5, ds_minimum = 0, ds_maximum = 9999 / 100, ds_decimals = 2\<rparr> PNone = Inr d' \<and>
         DoubleSpinBoxValueHandler_value d' = PFloat (Finite 0)) \<and>
   (\<exists>d'. DoubleSpinBoxValueHandler_setValue
           \<lparr>ds_value = 5, ds_minimum = 0, ds_maximum = 9999 / 100, ds_decimals = 2\<rparr> (PStr ''7'') = Inr d' \<and>
         DoubleSpinBoxValueHandler_value d' = PFloat (Finite 7)) \<and>
   (\<exists>c'. SpinBoxValueHandler_setValue \<lparr>sb_value = 0, sb_minimum = - 5, sb_maximum = 3\<rparr> (PStr ''7'') = Inr c' \<and>
         SpinBoxValueHandler_value c' = PInt 3) \<and>
   (\<exists>d'. DoubleSpinBoxValueHandler_setValue
           \<lparr>ds_value = 6, ds_minimum = 5, ds_maximum = 10, ds_decimals = 2\<rparr> PNone = Inr d' \<and>
         DoubleSpinBoxValueHandler_value d' = PFloat (Finite 5))"
proof -
  let ?c1 = "\<lparr>sb_value = 5, sb_minimum = 0, sb_maximum = 99\<rparr>"
  let ?d1 = "\<lparr>ds_value = 5, ds_minimum = 0, ds_maximum = 9999 / 100, ds_decimals = 2\<rparr>"
  let ?c2 = "\<lparr>sb_value = 0, sb_minimum = - 5, sb_maximum = 3\<rparr>"
  let ?d2 = "\<lparr>ds_value = 6, ds_minimum = 5, ds_maximum = 10, ds_decimals = 2\<rparr>"
  have h: "sb_minimum ?c1 \<le> 0 \<and> 0 \<le> sb_maximum ?c1" "sb_minimum ?c1 \<le> 7 \<and> 7 \<le> sb_maximum ?c1"
    "ds_minimum ?d1 \<le> 0 \<and> 0 \<le> ds_maximum ?d1" "ds_minimum ?d1 \<le> 7 \<and> 7 \<le> ds_maximum ?d1"
    by simp_all
  have m: "max (sb_minimum ?c2) (min (sb_maximum ?c2) 7) = 3"
    "max (ds_minimum ?d2) (min (ds_maximum ?d2) 0) = 5"
    by simp_all
  note r1 = Spin_setValue_value [of ?c1 ?d1]
  note r2 = Spin_setValue_value [of ?c2 ?d2]
  from r1 h have p1: "(\<exists>c'. SpinBoxValueHandler_setValue ?c1 PNone = Inr c' \<and>
         SpinBoxValueHandler_value c' = PInt 0) \<and>
   (\<exists>c'. SpinBoxValueHandler_setValue ?c1 (PStr ''7'') = Inr c' \<and>
         SpinBoxValueHandler_value c' = PInt 7) \<and>
   (\<exists>d'. DoubleSpinBoxValueHandler_setValue ?d1 PNone = Inr d' \<and>
         DoubleSpinBoxValueHandler_value d' = PFloat (Finite 0)) \<and>
   (\<exists>d'. DoubleSpinBoxValueHandler_setValue ?d1 (PStr ''7'') = Inr d' \<and>
         DoubleSpinBoxValueHandler_value d' = PFloat (Finite 7))"
    by blast
  from r2 have p2: "(\<exists>c'. SpinBoxValueHandler_setValue ?c2 (PStr ''7'') = Inr c' \<and>
         SpinBoxValueHandler_value c' = PInt (max (sb_minimum ?c2) (min (sb_maximum ?c2) 7))) \<and>
   (\<exists>d'. DoubleSpinBoxValueHandler_setValue ?d2 PNone = Inr d' \<and>
         DoubleSpinBoxValueHandler_value d' =
           PFloat (Finite (max (ds_minimum ?d2) (min (ds_maximum ?d2) 0))))"
    by blast
  from p2 have p3: "(\<exists>c'. SpinBoxValueHandler_setValue ?c2 (PStr ''7'') = Inr c' \<and>
         SpinBoxValueHandler_value c' = PInt 3) \<and>
   (\<exists>d'. DoubleSpinBoxValueHandler_setValue ?d2 PNone = Inr d' \<and>
         DoubleSpinBoxValueHandler_value d' = PFloat (Finite 5))"
    by (simp only: m)
  from p1 p3 show ?thesis by blast
qed

text \<open>
  Claim C5 as stated fails on a spin box whose range excludes 0: with the range 1 to 10,
  \<open>setValue(None)\<close> asks for 0, the control keeps its minimum, and \<open>value\<close> returns 1.
\<close>

theorem Spin_range_counterexample:
  "SpinBoxValueHandler_setValue \<lparr>sb_value = 5, sb_minimum = 1, sb_maximum = 10\<rparr> PNone
     = Inr \<lparr>sb_value = 1, sb_minimum = 1, sb_maximum = 10\<rparr> \<and>
   SpinBoxValueHandler_value \<lparr>sb_value = 1, sb_minimum = 1, sb_maximum = 10\<rparr> = PInt 1 \<and>
   \<not> py_eq (PInt 1) (PInt 0)"
  by (simp add: SpinBoxValueHandler_setValue_def SpinBoxValueHandler_value_def
      QSpinBox_setValue_def py_eq_def)

text \<open>
  Claim C3 does not hold of the code. \<open>SpinBoxValueHandler.setValue\<close> on the string
  \<open>abc\<close> raises ValueError from \<open>int\<close>, and \<open>LineEditValueHandler.setValue\<close> on the
  integer 5 raises TypeError from \<open>setText\<close>; neither is caught. The date handler, on
  the same kind of input, catches the TypeError and leaves the control as it was.
\<close>

theorem setValue_incompatible_raises:
  "SpinBoxValueHandler_setValue \<lparr>sb_value = 0, sb_minimum = 0, sb_maximum = 99\<rparr> (PStr ''abc'')
     = Inl ValueError \<and>
   LineEditValueHandler_setValue \<lparr>le_text = [], le_maxLength = 32767\<rparr> (PInt 5) = Inl TypeError \<and>
   DateEditValueHandler_setValue
     \<lparr>de_date = 2460000, de_minimumDate = 2361222, de_maximumDate = 5373484, de_deleted = False\<rparr>
     (PStr ''abc'')
     = Inr (\<lparr>de_date = 2460000, de_minimumDate = 2361222, de_maximumDate = 5373484,
              de_deleted = False\<rparr>, [])"
  by (simp add: SpinBoxValueHandler_setValue_def py_int_abc LineEditValueHandler_setValue_def
      QLineEdit_setText_def DateEditValueHandler_setValue_def QDateEdit_setDate_def)





section \<open>Properties of the database creator\<close>

text \<open>
  Claim C7 does not hold of the code. With a template, the format string
  \<open>CREATE EXTENSION %\<close> ends in a bare \<open>%\<close>, so building the statement raises
  ValueError and nothing is executed; and whatever exception reaches the handler,
  \<open>raise ex.message\<close> raises AttributeError (or TypeError when the exception has a
  \<open>message\<close>) in its place, so a driver exception never reaches the caller unmodified.
  Only the run without a template and without a failure executes
  \<open>CREATE EXTENSION postgis\<close> as the claim says.
\<close>

theorem createDbExtension_raises:
  "createDbExtension (\<lambda>ex. None) (\<lambda>sql. None) (Some ''postgis_topology'') = Inl AttributeError \<and>
   createDbExtension (\<lambda>ex. None) (\<lambda>sql. Some (DriverError ''connection refused'')) None
     = Inl AttributeError \<and>
   createDbExtension (\<lambda>ex. Some ''connection refused'')
     (\<lambda>sql. Some (DriverError ''connection refused'')) None = Inl TypeError \<and>
   createDbExtension (\<lambda>ex. None) (\<lambda>sql. None) None = Inr [''CREATE EXTENSION postgis'']"
  by (simp add: createDbExtension_def raise_message_def)

section \<open>Properties of the composer data source selector\<close>

lemma fold_on_referenced_table_selected:
  "rbTables (fold (\<lambda>_. on_referenced_table_selected) sigs s) = rbTables s \<and>
   rbViews (fold (\<lambda>_. on_referenced_table_selected) sigs s) = rbViews s \<and>
   sync_data_source (fold (\<lambda>_. on_referenced_table_selected) sigs s) = sync_data_source s \<and>
   signals_connected (fold (\<lambda>_. on_referenced_table_selected) sigs s) = signals_connected s \<and>
   cboDataSource (fold (\<lambda>_. on_referenced_table_selected) sigs s) = cboDataSource s \<and>
   cboReferencedTable (fold (\<lambda>_. on_referenced_table_selected) sigs s) = cboReferencedTable s \<and>
   profile_tables (fold (\<lambda>_. on_referenced_table_selected) sigs s) = profile_tables s \<and>
   profile_views (fold (\<lambda>_. on_referenced_table_selected) sigs s) = profile_views s"
  by (induction sigs arbitrary: s) (simp_all add: on_referenced_table_selected_def)

lemma on_cboReferencedTable_fields:
  "rbTables (on_cboReferencedTable op s) = rbTables s \<and>
   rbViews (on_cboReferencedTable op s) = rbViews s \<and>
   sync_data_source (on_cboReferencedTable op s) = sync_data_source s \<and>
   signals_connected (on_cboReferencedTable op s) = signals_connected s \<and>
   cboDataSource (on_cboReferencedTable op s) = cboDataSource s \<and>
   cboReferencedTable (on_cboReferencedTable op s) = fst (op (cboReferencedTable s)) \<and>
   profile_tables (on_cboReferencedTable op s) = profile_tables s \<and>
   profile_views (on_cboReferencedTable op s) = profile_views s"
  by (simp add: on_cboReferencedTable_def split_def Let_def fold_on_referenced_table_selected)

lemma category_on_cboReferencedTable:
  "category (on_cboReferencedTable op s) = category s"
  by (simp add: category_def on_cboReferencedTable_fields)

lemma co_enabled_setCurrentIndex:
  "co_enabled (fst (combo_setCurrentIndex i c)) = co_enabled c"
  by (simp add: combo_setCurrentIndex_def Let_def)

lemma reset_fields:
  "rbTables (reset_referenced_table_combo s) = rbTables s \<and>
   rbViews (reset_referenced_table_combo s) = rbViews s \<and>
   signals_connected (reset_referenced_table_combo s) = signals_connected s \<and>
   cboDataSource (reset_referenced_table_combo s) = cboDataSource s \<and>
   profile_tables (reset_referenced_table_combo s) = profile_tables s \<and>
   profile_views (reset_referenced_table_combo s) = profile_views s \<and>
   co_enabled (cboReferencedTable (reset_referenced_table_combo s)) = (category s \<noteq> Some ''Table'') \<and>
   sync_data_source (reset_referenced_table_combo s) = (category s = Some ''Table'')"
  by (simp add: reset_referenced_table_combo_def Let_def on_cboReferencedTable_fields
      category_on_cboReferencedTable)

lemma onDataSourceSelected_fields:
  "rbTables (onDataSourceSelected ft ds s) = rbTables s \<and>
   rbViews (onDataSourceSelected ft ds s) = rbViews s \<and>
   sync_data_source (onDataSourceSelected ft ds s) = sync_data_source s \<and>
   signals_connected (onDataSourceSelected ft ds s) = signals_connected s \<and>
   cboDataSource (onDataSourceSelected ft ds s) = cboDataSource s \<and>
   profile_tables (onDataSourceSelected ft ds s) = profile_tables s \<and>
   profile_views (onDataSourceSelected ft ds s) = profile_views s \<and>
   co_enabled (cboReferencedTable (onDataSourceSelected ft ds s)) =
     (if category s = Some ''View'' then ds \<noteq> [] else co_enabled (cboReferencedTable s))"
  by (simp add: onDataSourceSelected_def Let_def on_cboReferencedTable_fields
      co_enabled_setCurrentIndex split: option.splits)

lemma category_onDataSourceSelected:
  "category (onDataSourceSelected ft ds s) = category s"
  by (simp add: category_def onDataSourceSelected_fields)


lemma fold_onDataSourceSelected_fields:
  "rbTables (fold (onDataSourceSelected ft) sigs s) = rbTables s \<and>
   rbViews (fold (onDataSourceSelected ft) sigs s) = rbViews s \<and>
   sync_data_source (fold (onDataSourceSelected ft) sigs s) = sync_data_source s \<and>
   signals_connected (fold (onDataSourceSelected ft) sigs s) = signals_connected s \<and>
   cboDataSource (fold (onDataSourceSelected ft) sigs s) = cboDataSource s \<and>
   profile_tables (fold (onDataSourceSelected ft) sigs s) = profile_tables s \<and>
   profile_views (fold (onDataSourceSelected ft) sigs s) = profile_views s"
  by (induction sigs arbitrary: s) (simp_all add: onDataSourceSelected_fields)

lemma on_cboDataSource_fields:
  "rbTables (on_cboDataSource ft op s) = rbTables s \<and>
   rbViews (on_cboDataSource ft op s) = rbViews s \<and>
   sync_data_source (on_cboDataSource ft op s) = sync_data_source s \<and>
   signals_connected (on_cboDataSource ft op s) = signals_connected s \<and>
   cboDataSource (on_cboDataSource ft op s) = fst (op (cboDataSource s)) \<and>
   profile_tables (on_cboDataSource ft op s) = profile_tables s \<and>
   profile_views (on_cboDataSource ft op s) = profile_views s"
  by (simp add: on_cboDataSource_def split_def Let_def fold_onDataSourceSelected_fields)

lemma category_on_cboDataSource:
  "category (on_cboDataSource ft op s) = category s"
  by (simp add: category_def on_cboDataSource_fields)

lemma on_cboDataSource_silent:
  "snd (op (cboDataSource s)) = [] \<Longrightarrow>
   co_enabled (cboReferencedTable (on_cboDataSource ft op s)) = co_enabled (cboReferencedTable s)"
  by (simp add: on_cboDataSource_def split_def Let_def)

lemma on_cboDataSource_one:
  "snd (op (cboDataSource s)) = [x] \<Longrightarrow>
   co_enabled (cboReferencedTable (on_cboDataSource ft op s)) =
     (if signals_connected s \<and> category s = Some ''View'' then x \<noteq> []
      else co_enabled (cboReferencedTable s))"
  by (simp add: on_cboDataSource_def split_def Let_def onDataSourceSelected_fields category_def)

lemma clear_enabled:
  "co_enabled (cboReferencedTable (on_cboDataSource ft combo_clear s)) =
     (if signals_connected s \<and> category s = Some ''View'' \<and> co_index (cboDataSource s) \<noteq> - 1
      then False else co_enabled (cboReferencedTable s))"
proof (cases "co_index (cboDataSource s) = - 1")
  case True
  then have "snd (combo_clear (cboDataSource s)) = []" by (simp add: combo_clear_def)
  from on_cboDataSource_silent [where op = combo_clear and s = s and ft = ft, OF this] True
  show ?thesis by simp
next
  case False
  then have "snd (combo_clear (cboDataSource s)) = [[]]" by (simp add: combo_clear_def)
  from on_cboDataSource_one [where op = combo_clear and s = s and ft = ft, OF this] False
  show ?thesis by simp
qed

lemma clear_items: "co_items (fst (combo_clear c)) = []"
  by (simp add: combo_clear_def)

lemma addItem_empty_enabled:
  "co_items (cboDataSource s) = [] \<Longrightarrow>
   co_enabled (cboReferencedTable (on_cboDataSource ft (combo_addItem t d) s)) =
     (if signals_connected s \<and> category s = Some ''View'' then t \<noteq> []
      else co_enabled (cboReferencedTable s))"
proof -
  assume "co_items (cboDataSource s) = []"
  then have "snd (combo_addItem t d (cboDataSource s)) = [t]" by (simp add: combo_addItem_def)
  from on_cboDataSource_one [where op = "combo_addItem t d" and s = s and ft = ft, OF this]
  show ?thesis .
qed

lemma addItem_nonempty_enabled:
  "co_items (cboDataSource s) \<noteq> [] \<Longrightarrow>
   co_enabled (cboReferencedTable (on_cboDataSource ft (combo_addItem t d) s)) =
     co_enabled (cboReferencedTable s)"
proof -
  assume "co_items (cboDataSource s) \<noteq> []"
  then have "snd (combo_addItem t d (cboDataSource s)) = []" by (simp add: combo_addItem_def)
  from on_cboDataSource_silent [where op = "combo_addItem t d" and s = s and ft = ft, OF this]
  show ?thesis .
qed

lemma addItem_items: "co_items (fst (combo_addItem t d c)) \<noteq> []"
  by (simp add: combo_addItem_def)

lemma fold_views:
  "co_items (cboDataSource s) \<noteq> [] \<Longrightarrow>
   (let s' = fold (\<lambda>view st. on_cboDataSource ft (combo_addItem view (Some view)) st) vs s in
    co_enabled (cboReferencedTable s') = co_enabled (cboReferencedTable s) \<and>
    sync_data_source s' = sync_data_source s \<and> rbTables s' = rbTables s \<and>
    rbViews s' = rbViews s \<and> signals_connected s' = signals_connected s)"
proof (induction vs arbitrary: s)
  case Nil
  then show ?case by simp
next
  case (Cons v vs)
  let ?s1 = "on_cboDataSource ft (combo_addItem v (Some v)) s"
  have ne: "co_items (cboDataSource ?s1) \<noteq> []"
    by (simp add: on_cboDataSource_fields addItem_items)
  from Cons.IH [OF ne] addItem_nonempty_enabled [OF Cons.prems, of ft v "Some v"]
  show ?case by (simp add: Let_def on_cboDataSource_fields)
qed

lemma fold_tables:
  "co_items (cboDataSource s) \<noteq> [] \<Longrightarrow>
   (let s' = fold (\<lambda>(key, val) st.
                     if \<not> contains_supporting_document key
                     then on_cboDataSource ft (combo_addItem (lower val) (Some key)) st
                     else st) ts s in
    co_enabled (cboReferencedTable s') = co_enabled (cboReferencedTable s) \<and>
    sync_data_source s' = sync_data_source s \<and> rbTables s' = rbTables s \<and>
    rbViews s' = rbViews s \<and> signals_connected s' = signals_connected s)"
proof (induction ts arbitrary: s)
  case Nil
  then show ?case by simp
next
  case (Cons t ts)
  obtain key val where t: "t = (key, val)" by (cases t)
  show ?case
  proof (cases "contains_supporting_document key")
    case True
    with Cons.IH [OF Cons.prems] t show ?thesis by (simp add: Let_def)
  next
    case False
    let ?s1 = "on_cboDataSource ft (combo_addItem (lower val) (Some key)) s"
    have ne: "co_items (cboDataSource ?s1) \<noteq> []"
      by (simp add: on_cboDataSource_fields addItem_items)
    from Cons.IH [OF ne] addItem_nonempty_enabled [OF Cons.prems, of ft "lower val" "Some key"]
      False t
    show ?thesis by (simp add: Let_def on_cboDataSource_fields)
  qed
qed

lemma onShowTables_True:
  assumes "rbTables s"
  shows "\<not> co_enabled (cboReferencedTable (onShowTables ft True sc s)) \<and>
         sync_data_source (onShowTables ft True sc s)"
proof -
  let ?s2 = "reset_referenced_table_combo s"
  let ?s3 = "on_cboDataSource ft combo_clear ?s2"
  let ?s4 = "on_cboDataSource ft (combo_addItem [] None) ?s3"
  have cat: "category s = Some ''Table''" using assms by (simp add: category_def)
  have c2: "category ?s2 = Some ''Table''" using assms by (simp add: category_def reset_fields)
  have e2: "\<not> co_enabled (cboReferencedTable ?s2)" "sync_data_source ?s2"
    using cat by (simp_all add: reset_fields)
  have e3: "\<not> co_enabled (cboReferencedTable ?s3)" "sync_data_source ?s3"
    using e2 c2 by (simp_all add: clear_enabled on_cboDataSource_fields)
  have i3: "co_items (cboDataSource ?s3) = []"
    by (simp add: on_cboDataSource_fields clear_items)
  have c3: "category ?s3 = Some ''Table''" using c2 by (simp add: category_on_cboDataSource)
  have e4: "\<not> co_enabled (cboReferencedTable ?s4)" "sync_data_source ?s4"
    using e3 c3 addItem_empty_enabled [OF i3, of ft "[]" None]
    by (simp_all add: on_cboDataSource_fields)
  have i4: "co_items (cboDataSource ?s4) \<noteq> []"
    by (simp add: on_cboDataSource_fields addItem_items)
  from fold_tables [OF i4, of ft "profile_tables ?s4"] e4
  show ?thesis by (simp add: onShowTables_def Let_def)
qed

lemma onShowViews_True:
  assumes "\<not> rbTables s" and "rbViews s"
  shows "\<not> sync_data_source (onShowViews ft True sc s) \<and>
         (co_enabled (cboReferencedTable (onShowViews ft True sc s)) \<longleftrightarrow> \<not> signals_connected s)"
proof -
  let ?s2 = "reset_referenced_table_combo s"
  let ?s3 = "on_cboDataSource ft combo_clear ?s2"
  let ?s4 = "on_cboDataSource ft (combo_addItem [] None) ?s3"
  have cat: "category s = Some ''View''" using assms by (simp add: category_def)
  have c2: "category ?s2 = Some ''View''" using assms by (simp add: category_def reset_fields)
  have e2: "co_enabled (cboReferencedTable ?s2)" "\<not> sync_data_source ?s2"
    using cat by (simp_all add: reset_fields)
  have n2: "signals_connected ?s2 = signals_connected s" by (simp add: reset_fields)
  have e3: "\<not> signals_connected s \<Longrightarrow> co_enabled (cboReferencedTable ?s3)"
    using e2 n2 by (simp add: clear_enabled)
  have y3: "\<not> sync_data_source ?s3" using e2 by (simp add: on_cboDataSource_fields)
  have n3: "signals_connected ?s3 = signals_connected s"
    using n2 by (simp add: on_cboDataSource_fields)
  have i3: "co_items (cboDataSource ?s3) = []"
    by (simp add: on_cboDataSource_fields clear_items)
  have c3: "category ?s3 = Some ''View''" using c2 by (simp add: category_on_cboDataSource)
  have e4: "co_enabled (cboReferencedTable ?s4) \<longleftrightarrow> \<not> signals_connected s"
    using e3 c3 n3 addItem_empty_enabled [OF i3, of ft "[]" None] by auto
  have y4: "\<not> sync_data_source ?s4" using y3 by (simp add: on_cboDataSource_fields)
  have i4: "co_items (cboDataSource ?s4) \<noteq> []"
    by (simp add: on_cboDataSource_fields addItem_items)
  from fold_views [OF i4, of ft "profile_views ?s4"] e4 y4
  show ?thesis by (simp add: onShowViews_def Let_def)
qed

text \<open>
  Claim C8, as amended. When the category is \<open>Table\<close>, \<open>_reset_referenced_table_combo\<close>
  disables the referenced table combo box and enables the synchronisation, and both
  still hold when \<open>onShowTables(True)\<close> returns. When the category is \<open>View\<close>, it enables
  the combo box and disables the synchronisation; when \<open>onShowViews(True)\<close> returns the
  synchronisation is still disabled, but the combo box is enabled only while the signals
  are not yet connected: in the connected widget, refilling the data source combo box
  selects its empty entry, and \<open>onDataSourceSelected\<close> disables the referenced table
  combo box until a data source is selected.
\<close>

theorem category_change:
  "(category s = Some ''Table'' \<longrightarrow>
      \<not> co_enabled (cboReferencedTable (reset_referenced_table_combo s)) \<and>
      sync_data_source (reset_referenced_table_combo s) \<and>
      \<not> co_enabled (cboReferencedTable (onShowTables find_text True save_change s)) \<and>
      sync_data_source (onShowTables find_text True save_change s)) \<and>
   (category s = Some ''View'' \<longrightarrow>
      co_enabled (cboReferencedTable (reset_referenced_table_combo s)) \<and>
      \<not> sync_data_source (reset_referenced_table_combo s) \<and>
      \<not> sync_data_source (onShowViews find_text True save_change s) \<and>
      (co_enabled (cboReferencedTable (onShowViews find_text True save_change s))
         \<longleftrightarrow> \<not> signals_connected s))"
proof (intro conjI impI)
  assume t: "category s = Some ''Table''"
  then have rb: "rbTables s" by (simp add: category_def split: if_splits)
  show "\<not> co_enabled (cboReferencedTable (reset_referenced_table_combo s))"
    using t by (simp add: reset_fields)
  show "sync_data_source (reset_referenced_table_combo s)"
    using t by (simp add: reset_fields)
  show "\<not> co_enabled (cboReferencedTable (onShowTables find_text True save_change s))"
    using onShowTables_True [OF rb] by simp
  show "sync_data_source (onShowTables find_text True save_change s)"
    using onShowTables_True [OF rb] by simp
next
  assume v: "category s = Some ''View''"
  then have rb: "\<not> rbTables s" "rbViews s" by (simp_all add: category_def split: if_splits)
  show "co_enabled (cboReferencedTable (reset_referenced_table_combo s))"
    using v by (simp add: reset_fields)
  show "\<not> sync_data_source (reset_referenced_table_combo s)"
    using v by (simp add: reset_fields)
  show "\<not> sync_data_source (onShowViews find_text True save_change s)"
    using onShowViews_True [OF rb] by simp
  show "co_enabled (cboReferencedTable (onShowViews find_text True save_change s))
         \<longleftrightarrow> \<not> signals_connected s"
    using onShowViews_True [OF rb] by simp
qed


theorem category_change_witness:
  "category \<lparr>rbTables = True, rbViews = False,
       cboDataSource = \<lparr>co_items = [], co_index = - 1, co_enabled = True\<rparr>,
       cboReferencedTable = \<lparr>co_items = [([], None)], co_index = 0, co_enabled = True\<rparr>,
       sync_data_source = False, signals_connected = True,
       profile_tables = [(''party'', ''Party'')], profile_views = [''v1''],
       layout_data_source = None, layout_referenced_table = None,
       layout_category = None\<rparr> = Some ''Table'' \<and>
   \<not> co_enabled (cboReferencedTable (onShowTables (\<lambda>c t. None) True True
       \<lparr>rbTables = True, rbViews = False,
       cboDataSource = \<lparr>co_items = [], co_index = - 1, co_enabled = True\<rparr>,
       cboReferencedTable = \<lparr>co_items = [([], None)], co_index = 0, co_enabled = True\<rparr>,
       sync_data_source = False, signals_connected = True,
       profile_tables = [(''party'', ''Party'')], profile_views = [''v1''],
       layout_data_source = None, layout_referenced_table = None,
       layout_category = None\<rparr>)) \<and>
   category \<lparr>rbTables = False, rbViews = True,
       cboDataSource = \<lparr>co_items = [], co_index = - 1, co_enabled = True\<rparr>,
       cboReferencedTable = \<lparr>co_items = [([], None)], co_index = 0, co_enabled = False\<rparr>,
       sync_data_source = True, signals_connected = True,
       profile_tables = [(''party'', ''Party'')], profile_views = [''v1''],
       layout_data_source = None, layout_referenced_table = None,
       layout_category = None\<rparr> = Some ''View'' \<and>
   \<not> sync_data_source (onShowViews (\<lambda>c t. None) True True
       \<lparr>rbTables = False, rbViews = True,
       cboDataSource = \<lparr>co_items = [], co_index = - 1, co_enabled = True\<rparr>,
       cboReferencedTable = \<lparr>co_items = [([], None)], co_index = 0, co_enabled = False\<rparr>,
       sync_data_source = True, signals_connected = True,
       profile_tables = [(''party'', ''Party'')], profile_views = [''v1''],
       layout_data_source = None, layout_referenced_table = None,
       layout_category = None\<rparr>)"
proof -
  let ?t = "\<lparr>rbTables = True, rbViews = False,
       cboDataSource = \<lparr>co_items = [], co_index = - 1, co_enabled = True\<rparr>,
       cboReferencedTable = \<lparr>co_items = [([], None)], co_index = 0, co_enabled = True\<rparr>,
       sync_data_source = False, signals_connected = True,
       profile_tables = [(''party'', ''Party'')], profile_views = [''v1''],
       layout_data_source = None, layout_referenced_table = None,
       layout_category = None\<rparr>"
  let ?v = "\<lparr>rbTables = False, rbViews = True,
       cboDataSource = \<lparr>co_items = [], co_index = - 1, co_enabled = True\<rparr>,
       cboReferencedTable = \<lparr>co_items = [([], None)], co_index = 0, co_enabled = False\<rparr>,
       sync_data_source = True, signals_connected = True,
       profile_tables = [(''party'', ''Party'')], profile_views = [''v1''],
       layout_data_source = None, layout_referenced_table = None,
       layout_category = None\<rparr>"
  have t: "category ?t = Some ''Table''" by (simp add: category_def)
  have v: "category ?v = Some ''View''" by (simp add: category_def)
  from category_change [of ?t "\<lambda>c t. None" True] t
  have 1: "\<not> co_enabled (cboReferencedTable (onShowTables (\<lambda>c t. None) True True ?t))"
    by blast
  from category_change [of ?v "\<lambda>c t. None" True] v
  have 2: "\<not> sync_data_source (onShowViews (\<lambda>c t. None) True True ?v)"
    by blast
  from t v 1 2 show ?thesis by blast
qed

lemma fold_populate:
  "(let s' = fold (\<lambda>(short_name, name) st.
                     on_cboReferencedTable (combo_addItem (lower short_name) (Some name)) st) rs s in
    rbTables s' = rbTables s \<and> rbViews s' = rbViews s \<and>
    signals_connected s' = signals_connected s)"
  by (induction rs arbitrary: s) (simp_all add: Let_def split_def on_cboReferencedTable_fields)

lemma populate_fields:
  "rbTables (populate_referenced_tables rs s) = rbTables s \<and>
   rbViews (populate_referenced_tables rs s) = rbViews s \<and>
   signals_connected (populate_referenced_tables rs s) = signals_connected s"
  using fold_populate [of rs "on_cboReferencedTable (combo_addItem [] None) s"]
  by (simp add: populate_referenced_tables_def Let_def on_cboReferencedTable_fields)

lemma onShowViews_rb:
  "rbTables (onShowViews ft st sc s) = rbTables s \<and> rbViews (onShowViews ft st sc s) = rbViews s"
proof (cases st)
  case False
  then show ?thesis by (simp add: onShowViews_def)
next
  case True
  let ?s2 = "reset_referenced_table_combo s"
  let ?s3 = "on_cboDataSource ft combo_clear ?s2"
  let ?s4 = "on_cboDataSource ft (combo_addItem [] None) ?s3"
  have i4: "co_items (cboDataSource ?s4) \<noteq> []"
    by (simp add: on_cboDataSource_fields addItem_items)
  have r4: "rbTables ?s4 = rbTables s" "rbViews ?s4 = rbViews s"
    by (simp_all add: on_cboDataSource_fields reset_fields)
  from fold_views [OF i4, of ft "profile_views ?s4"] r4 True
  show ?thesis by (simp add: onShowViews_def Let_def)
qed

lemma selector_init_view_disabled:
  "category (selector_init ft rs ts vs) = Some ''View'' \<and>
   \<not> co_enabled (cboReferencedTable (selector_init ft rs ts vs))"
  by (simp add: selector_init_def Let_def category_def onShowViews_rb populate_fields)

text \<open>
  Claim C8 as stated fails at the end of the constructor: the category has become
  \<open>View\<close>, and the constructor's last step on the referenced table combo box disables it.
\<close>

theorem selector_init_counterexample:
  "category (selector_init (\<lambda>c t. None) [(''Party'', ''party'')] [(''party'', ''Party'')] [''v1''])
     = Some ''View'' \<and>
   \<not> co_enabled (cboReferencedTable
       (selector_init (\<lambda>c t. None) [(''Party'', ''party'')] [(''party'', ''Party'')] [''v1'']))"
  by (rule selector_init_view_disabled)

end
